theory Spec2Isabelle
  imports Main
begin

section \<open>The blog list API: data model\<close>

text \<open>
  The development embeds \<^verbatim>\<open>part4/bloglist/controllers/blogs.js\<close> (the routes
  \<^verbatim>\<open>POST /\<close>, \<^verbatim>\<open>DELETE /:id\<close>, \<^verbatim>\<open>PUT /:id\<close>) and
  \<^verbatim>\<open>part4/bloglist/utils/middleware.js\<close> (\<^verbatim>\<open>errorHandler\<close>,
  \<^verbatim>\<open>tokenExtractor\<close>, \<^verbatim>\<open>userExtractor\<close>). The two collections and the
  response of the request being served form the state that the handlers pass along.
\<close>

subsection \<open>Document identifiers\<close>

text \<open>
  A document id is an ObjectId; its string form is 24 lower-case hexadecimal digits.
  \<^verbatim>\<open>castObjectId\<close> is the cast that the ODM applies to \<^verbatim>\<open>request.params.id\<close>
  and to the id of a decoded token: a string of 24 hexadecimal digits is accepted (in
  either case), anything else is a cast error. The ids held in documents come from this
  cast or from the id generator, so their strings are well-formed; the theorems below do
  not rely on it.
\<close>

datatype objectId = ObjectId string

fun toString :: "objectId \<Rightarrow> string" where
  "toString (ObjectId h) = h"

definition isHexDigit :: "char \<Rightarrow> bool" where
  "isHexDigit c = (c \<in> set ''0123456789abcdefABCDEF'')"

definition toLowerHex :: "char \<Rightarrow> char" where
  "toLowerHex c = (case map_of (zip ''ABCDEF'' ''abcdef'') c of None \<Rightarrow> c | Some l \<Rightarrow> l)"

definition castObjectId :: "string \<Rightarrow> objectId option" where
  "castObjectId s =
     (if length s = 24 \<and> list_all isHexDigit s then Some (ObjectId (map toLowerHex s))
      else None)"

subsection \<open>Documents, request and response\<close>

text \<open>
  Modelled from the spec: the schemas \<^verbatim>\<open>models/blog.js\<close> and \<^verbatim>\<open>models/user.js\<close>
  are not among the sources. A Blog is \<open>{title (required), author, url (required), likes,
  user}\<close>, a User is \<open>{id, username, name, passwordHash, blogs}\<close>; \<open>uid\<close> is the
  document's \<^verbatim>\<open>_id\<close>, and the password hash plays no part in the routes below.
\<close>

record blog =
  title :: string
  author :: string
  url :: string
  likes :: int
  user :: objectId

record user =
  uid :: objectId
  username :: string
  name :: "string option"
  blogs :: "objectId list"

text \<open>
  The JSON body of a request: the four blog fields, a \<^verbatim>\<open>user\<close> field (the tests
  send one) and any other fields, each of them possibly absent. The fields carry the
  schema's types: a body whose likes is not a number is outside the model.
\<close>

record blogInput =
  in_title :: "string option"
  in_author :: "string option"
  in_url :: "string option"
  in_likes :: "int option"
  in_user :: "string option"
  in_other :: "(string \<times> string) list"

record request =
  authorization :: "string option"
  token :: "string option"
  params_id :: string
  body :: blogInput
  req_user :: "user option"

datatype error =
    CastError
  | ValidationError string
  | JsonWebTokenError
  | TokenExpiredError
  | TypeError
  | MongoServerError
  | HeadersSentError

datatype payload =
    Empty
  | ErrorMessage string
  | BlogDocument blog
  | JsonNull
  | ServerErrorPage

text \<open>
  \<open>sent\<close> is the response that went out for the request: status and body. It is written
  once; the client sees the first response only.
\<close>

record state =
  Blog_docs :: "objectId \<rightharpoonup> blog"
  User_docs :: "objectId \<rightharpoonup> user"
  sent :: "(nat \<times> payload) option"

section \<open>The web framework's response\<close>

text \<open>
  \<^verbatim>\<open>response.status(c).json(p)\<close> (and \<^verbatim>\<open>.send\<close> of an object) writes the
  response; once the headers are out it throws instead.
\<close>

definition json :: "nat \<Rightarrow> payload \<Rightarrow> state \<Rightarrow> error + state" where
  "json c p s = (if sent s = None then Inr (s\<lparr>sent := Some (c, p)\<rparr>) else Inl HeadersSentError)"

text \<open>\<^verbatim>\<open>response.status(c).end()\<close>: ends the response; a second end does nothing.\<close>

definition end_response :: "nat \<Rightarrow> state \<Rightarrow> state" where
  "end_response c s = (if sent s = None then s\<lparr>sent := Some (c, Empty)\<rparr> else s)"

text \<open>
  The framework's last error handler, reached by \<^verbatim>\<open>next(error)\<close> when no handler of
  the application answers: status 500, unless a response went out already.
\<close>

definition finalhandler :: "state \<Rightarrow> state" where
  "finalhandler s = (if sent s = None then s\<lparr>sent := Some (500, ServerErrorPage)\<rparr> else s)"

section \<open>middleware.js\<close>

definition errorHandler :: "error \<Rightarrow> state \<Rightarrow> state" where
  "errorHandler e s =
     (case (case e of
              CastError \<Rightarrow> json 400 (ErrorMessage ''malformatted id'') s
            | ValidationError m \<Rightarrow> json 400 (ErrorMessage m) s
            | JsonWebTokenError \<Rightarrow> json 401 (ErrorMessage ''JWT invalid'') s
            | TokenExpiredError \<Rightarrow> json 401 (ErrorMessage ''JWT expired'') s
            | _ \<Rightarrow> Inl e) of
        Inl _ \<Rightarrow> finalhandler s
      | Inr s' \<Rightarrow> s')"

definition tokenExtractor :: "request \<Rightarrow> request" where
  "tokenExtractor req =
     (case authorization req of
        None \<Rightarrow> req\<lparr>token := None\<rparr>
      | Some a \<Rightarrow>
          if take 7 a = ''Bearer '' then req\<lparr>token := Some (drop 7 a)\<rparr>
          else req\<lparr>token := None\<rparr>)"

text \<open>
  \<^verbatim>\<open>jwt.verify(request.token, config.SECRET)\<close>. The signature check is a parameter
  \<open>V\<close>: what the verifier keyed with the secret says of a token string. The tokens that
  verify are those signed at login, whose payload is \<open>{id, username}\<close> with an expiry;
  \<open>Decoded i\<close> carries the payload's \<^verbatim>\<open>id\<close>, \<open>None\<close> when the payload has none.
  A missing token throws \<^verbatim>\<open>JsonWebTokenError\<close>.
\<close>

datatype jwt_outcome = Invalid | Expired | Decoded "string option"

definition jwt_verify :: "(string \<Rightarrow> jwt_outcome) \<Rightarrow> string option \<Rightarrow> error + string option" where
  "jwt_verify V tok =
     (case tok of
        None \<Rightarrow> Inl JsonWebTokenError
      | Some t \<Rightarrow>
          (case V t of
             Invalid \<Rightarrow> Inl JsonWebTokenError
           | Expired \<Rightarrow> Inl TokenExpiredError
           | Decoded i \<Rightarrow> Inr i))"

text \<open>
  \<^verbatim>\<open>User.findById(id)\<close>: an undefined id finds nothing, a string is cast first.
\<close>

definition User_findById :: "string option \<Rightarrow> state \<Rightarrow> error + user option" where
  "User_findById i s =
     (case i of
        None \<Rightarrow> Inr None
      | Some str \<Rightarrow>
          (case castObjectId str of
             None \<Rightarrow> Inl CastError
           | Some oid \<Rightarrow> Inr (User_docs s oid)))"

text \<open>
  \<^verbatim>\<open>userExtractor(request, response, next)\<close>: \<open>next\<close> is the route handler that
  follows, \<^verbatim>\<open>next(error)\<close> is \<open>errorHandler\<close>. \<^verbatim>\<open>!decodedToken.id\<close> holds of a
  missing id and of the empty string. The branch that answers 401 has no
  \<^verbatim>\<open>return\<close>: the lookup and \<^verbatim>\<open>next()\<close> follow it.
\<close>

definition userExtractor ::
  "(string \<Rightarrow> jwt_outcome) \<Rightarrow> request \<Rightarrow> state \<Rightarrow> (request \<Rightarrow> state \<Rightarrow> state) \<Rightarrow> state" where
  "userExtractor V req s next =
     (case jwt_verify V (token req) of
        Inl e \<Rightarrow> errorHandler e s
      | Inr decodedToken_id \<Rightarrow>
          (case (if decodedToken_id = None \<or> decodedToken_id = Some []
                 then json 401 (ErrorMessage ''JWT invalid'') s else Inr s) of
             Inl e \<Rightarrow> errorHandler e s
           | Inr s1 \<Rightarrow>
               (case User_findById decodedToken_id s1 of
                  Inl e \<Rightarrow> errorHandler e s1
                | Inr u \<Rightarrow> next (req\<lparr>req_user := u\<rparr>) s1)))"

section \<open>The Blog model's operations\<close>

text \<open>
  Modelled from the spec: \<^verbatim>\<open>models/blog.js\<close> is not among the sources; title and url
  are required, and a required string is neither absent nor empty. The message of a
  validation error is abbreviated: the handlers only pass it on.
\<close>

definition required :: "string option \<Rightarrow> bool" where
  "required v = (case v of None \<Rightarrow> False | Some str \<Rightarrow> str \<noteq> [])"

text \<open>
  \<^verbatim>\<open>new Blog({...}).save()\<close>: \<open>newId\<close> is the \<^verbatim>\<open>_id\<close> that the new document
  received. Validation comes first; the insert fails on an id that is taken.
\<close>

definition Blog_save ::
  "objectId \<Rightarrow> string option \<Rightarrow> string \<Rightarrow> string option \<Rightarrow> int \<Rightarrow> objectId \<Rightarrow> state
     \<Rightarrow> error + (blog \<times> state)" where
  "Blog_save newId t a u l owner s =
     (case (t, u) of
        (Some t', Some u') \<Rightarrow>
          if \<not> (required t \<and> required u) then Inl (ValidationError ''Blog validation failed'')
          else if Blog_docs s newId \<noteq> None then Inl MongoServerError
          else
            (let b = \<lparr>title = t', author = a, url = u', likes = l, user = owner\<rparr>
             in Inr (b, s\<lparr>Blog_docs := (Blog_docs s)(newId \<mapsto> b)\<rparr>))
      | _ \<Rightarrow> Inl (ValidationError ''Blog validation failed''))"

text \<open>\<^verbatim>\<open>user.save()\<close> of a document read from the collection.\<close>

definition User_save :: "user \<Rightarrow> state \<Rightarrow> state" where
  "User_save u s = s\<lparr>User_docs := (User_docs s)(uid u \<mapsto> u)\<rparr>"

text \<open>\<^verbatim>\<open>Blog.findByIdAndDelete(id)\<close>: deleting an id that is not there succeeds.\<close>

definition Blog_findByIdAndDelete :: "string \<Rightarrow> state \<Rightarrow> error + state" where
  "Blog_findByIdAndDelete i s =
     (case castObjectId i of
        None \<Rightarrow> Inl CastError
      | Some oid \<Rightarrow> Inr (s\<lparr>Blog_docs := (Blog_docs s)(oid := None)\<rparr>))"

text \<open>
  The update document that \<^verbatim>\<open>blogsRouter.put\<close> builds, and
  \<^verbatim>\<open>Blog.findByIdAndUpdate(id, update, {new: true, runValidators: true, context: 'query'})\<close>:
  the id is cast, the validators run on the fields that the update sets, then the document
  is looked up; an absent field is left as it is, and the updated document is returned.
\<close>

record blogUpdate =
  up_title :: "string option"
  up_author :: "string option"
  up_likes :: "int option"
  up_url :: "string option"

definition updateValid :: "blogUpdate \<Rightarrow> bool" where
  "updateValid upd = ((up_title upd = None \<or> required (up_title upd)) \<and>
                      (up_url upd = None \<or> required (up_url upd)))"

definition applyUpdate :: "blogUpdate \<Rightarrow> blog \<Rightarrow> blog" where
  "applyUpdate upd b =
     b\<lparr>title := (case up_title upd of None \<Rightarrow> title b | Some v \<Rightarrow> v),
        author := (case up_author upd of None \<Rightarrow> author b | Some v \<Rightarrow> v),
        likes := (case up_likes upd of None \<Rightarrow> likes b | Some v \<Rightarrow> v),
        url := (case up_url upd of None \<Rightarrow> url b | Some v \<Rightarrow> v)\<rparr>"

definition Blog_findByIdAndUpdate ::
  "string \<Rightarrow> blogUpdate \<Rightarrow> state \<Rightarrow> error + (blog option \<times> state)" where
  "Blog_findByIdAndUpdate i upd s =
     (case castObjectId i of
        None \<Rightarrow> Inl CastError
      | Some oid \<Rightarrow>
          if \<not> updateValid upd then Inl (ValidationError ''Validation failed'')
          else
            (case Blog_docs s oid of
               None \<Rightarrow> Inr (None, s)
             | Some b \<Rightarrow>
                 Inr (Some (applyUpdate upd b),
                      s\<lparr>Blog_docs := (Blog_docs s)(oid \<mapsto> applyUpdate upd b)\<rparr>)))"

section \<open>controllers/blogs.js\<close>

text \<open>
  In each handler \<^verbatim>\<open>catch (error) { next(error) }\<close> hands the error to
  \<open>errorHandler\<close>, with the state as the failing statement found it.
\<close>

text \<open>
  \<^verbatim>\<open>blogsRouter.post\<close>. The object literal spreads the body first and then sets
  author, likes and user, so the body's own author and user are overwritten;
  \<^verbatim>\<open>request.user.id\<close> is the string of the user's \<^verbatim>\<open>_id\<close>, which the schema casts
  back to that id, and so is \<^verbatim>\<open>newBlog.id\<close> when it joins the user's blogs.
  Reading \<^verbatim>\<open>request.user.name\<close> of a user that was not found is a TypeError.
\<close>

definition post_handler :: "objectId \<Rightarrow> request \<Rightarrow> state \<Rightarrow> state" where
  "post_handler newId req s =
     (case req_user req of
        None \<Rightarrow> errorHandler TypeError s
      | Some u \<Rightarrow>
          (case Blog_save newId (in_title (body req))
                  (case name u of None \<Rightarrow> ''unknown'' | Some n \<Rightarrow> n)
                  (in_url (body req))
                  (case in_likes (body req) of None \<Rightarrow> 0 | Some l \<Rightarrow> l)
                  (uid u) s of
             Inl e \<Rightarrow> errorHandler e s
           | Inr (newBlog, s1) \<Rightarrow>
               (let s2 = User_save (u\<lparr>blogs := blogs u @ [newId]\<rparr>) s1
                in case json 201 (BlogDocument newBlog) s2 of
                     Inl e \<Rightarrow> errorHandler e s2
                   | Inr s3 \<Rightarrow> s3)))"

text \<open>
  \<^verbatim>\<open>blogsRouter.delete\<close>. The ownership test answers 401 and does not return: the
  deletion and the 204 follow in either case.
\<close>

definition delete_handler :: "request \<Rightarrow> state \<Rightarrow> state" where
  "delete_handler req s =
     (case req_user req of
        None \<Rightarrow> errorHandler TypeError s
      | Some u \<Rightarrow>
          (let userBlogIds = map toString (blogs u)
           in case (if params_id req \<notin> set userBlogIds
                    then json 401 (ErrorMessage ''unauthorized blog operation'') s
                    else Inr s) of
                Inl e \<Rightarrow> errorHandler e s
              | Inr s1 \<Rightarrow>
                  (case Blog_findByIdAndDelete (params_id req) s1 of
                     Inl e \<Rightarrow> errorHandler e s1
                   | Inr s2 \<Rightarrow> end_response 204 s2)))"

text \<open>
  \<^verbatim>\<open>blogsRouter.put\<close>. After the 404 the handler goes on to
  \<^verbatim>\<open>response.json(updatedBlog)\<close>, which throws as the response has ended.
\<close>

definition put_handler :: "request \<Rightarrow> state \<Rightarrow> state" where
  "put_handler req s =
     (case Blog_findByIdAndUpdate (params_id req)
             \<lparr>up_title = in_title (body req), up_author = in_author (body req),
              up_likes = in_likes (body req), up_url = in_url (body req)\<rparr> s of
        Inl e \<Rightarrow> errorHandler e s
      | Inr (updatedBlog, s1) \<Rightarrow>
          (let s2 = (if updatedBlog = None then end_response 404 s1 else s1)
           in case json 200 (case updatedBlog of None \<Rightarrow> JsonNull | Some b \<Rightarrow> BlogDocument b) s2 of
                Inl e \<Rightarrow> errorHandler e s2
              | Inr s3 \<Rightarrow> s3))"

text \<open>The routes as they are registered: create and delete pass through \<open>userExtractor\<close>.\<close>

definition blogsRouter_post ::
  "(string \<Rightarrow> jwt_outcome) \<Rightarrow> objectId \<Rightarrow> request \<Rightarrow> state \<Rightarrow> state" where
  "blogsRouter_post V newId req s = userExtractor V req s (post_handler newId)"

definition blogsRouter_delete :: "(string \<Rightarrow> jwt_outcome) \<Rightarrow> request \<Rightarrow> state \<Rightarrow> state" where
  "blogsRouter_delete V req s = userExtractor V req s delete_handler"

definition blogsRouter_put :: "request \<Rightarrow> state \<Rightarrow> state" where
  "blogsRouter_put req s = put_handler req s"

section \<open>Seed data\<close>

text \<open>
  Two users with one blog each, as the tests seed the database, and what the verifier says
  of the tokens used on concrete requests: one token for each user, an expired one, and one
  with a good signature whose payload has no id.
\<close>

definition id_alice :: objectId where "id_alice = ObjectId ''64a000000000000000000001''"
definition id_bob :: objectId where "id_bob = ObjectId ''64a000000000000000000002''"
definition id_blog1 :: objectId where "id_blog1 = ObjectId ''64b000000000000000000001''"
definition id_blog2 :: objectId where "id_blog2 = ObjectId ''64b000000000000000000002''"
definition id_new :: objectId where "id_new = ObjectId ''64b000000000000000000003''"

definition alice :: user where
  "alice = \<lparr>uid = id_alice, username = ''alice'', name = Some ''Alice A'', blogs = [id_blog1]\<rparr>"
definition bob :: user where
  "bob = \<lparr>uid = id_bob, username = ''bob'', name = None, blogs = [id_blog2]\<rparr>"
definition blog1 :: blog where
  "blog1 = \<lparr>title = ''First'', author = ''Alice A'', url = ''http://a.example/1'', likes = 3, user = id_alice\<rparr>"
definition blog2 :: blog where
  "blog2 = \<lparr>title = ''Second'', author = ''unknown'', url = ''http://b.example/2'', likes = 0, user = id_bob\<rparr>"
definition seed :: state where
  "seed = \<lparr>Blog_docs = [id_blog1 \<mapsto> blog1, id_blog2 \<mapsto> blog2],
           User_docs = [id_alice \<mapsto> alice, id_bob \<mapsto> bob], sent = None\<rparr>"
definition signed :: "string \<Rightarrow> jwt_outcome" where
  "signed t = (if t = ''alice.jwt'' then Decoded (Some ''64a000000000000000000001'')
     else if t = ''bob.jwt'' then Decoded (Some ''64a000000000000000000002'')
     else if t = ''stale.jwt'' then Expired
     else if t = ''anon.jwt'' then Decoded None
     else Invalid)"
definition no_body :: blogInput where
  "no_body = \<lparr>in_title = None, in_author = None, in_url = None, in_likes = None, in_user = None, in_other = []\<rparr>"
definition bare :: request where
  "bare = \<lparr>authorization = None, token = None, params_id = [], body = no_body, req_user = None\<rparr>"


section \<open>Basic facts about the middleware\<close>

lemma errorHandler_Blog_docs [simp]: "Blog_docs (errorHandler e s) = Blog_docs s"
  by (cases e) (simp_all add: errorHandler_def json_def finalhandler_def)

lemma errorHandler_User_docs [simp]: "User_docs (errorHandler e s) = User_docs s"
  by (cases e) (simp_all add: errorHandler_def json_def finalhandler_def)

lemma errorHandler_sent_already: "sent s \<noteq> None \<Longrightarrow> errorHandler e s = s"
  by (cases e) (auto simp: errorHandler_def json_def finalhandler_def)

lemma errorHandler_status:
  "sent s = None \<Longrightarrow> \<exists>p. sent (errorHandler e s) = Some (if e = CastError \<or> (\<exists>m. e = ValidationError m) then 400
       else if e = JsonWebTokenError \<or> e = TokenExpiredError then 401 else 500, p)"
  by (cases e) (simp_all add: errorHandler_def json_def finalhandler_def)

lemma jwt_verify_error:
  "jwt_verify V tok = Inl e \<Longrightarrow> e = JsonWebTokenError \<or> e = TokenExpiredError"
  by (auto simp: jwt_verify_def split: option.splits jwt_outcome.splits)

lemma userExtractor_no_id:
  assumes "jwt_verify V (token req) = Inr None" and "sent s = None"
  shows "userExtractor V req s next =
           next (req\<lparr>req_user := None\<rparr>) (s\<lparr>sent := Some (401, ErrorMessage ''JWT invalid'')\<rparr>)"
  using assms by (simp add: userExtractor_def json_def User_findById_def)

lemma tokenExtractor_missing:
  "authorization req = None \<Longrightarrow> jwt_verify V (token (tokenExtractor req)) = Inl JsonWebTokenError"
  by (simp add: tokenExtractor_def jwt_verify_def)

lemma userExtractor_found:
  assumes "jwt_verify V (token req) = Inr (Some i)" "castObjectId i = Some k" 
  shows "userExtractor V req s next = next (req\<lparr>req_user := User_docs s k\<rparr>) s"
proof -
  from assms(2) have "i \<noteq> []" by (auto simp: castObjectId_def)
  with assms show ?thesis by (simp add: userExtractor_def User_findById_def)
qed

lemma post_handler_success:
  assumes "req_user req = Some u" "in_title (body req) = Some t" "t \<noteq> []"
    "in_url (body req) = Some l" "l \<noteq> []" "Blog_docs s newId = None" "sent s = None"
  shows "post_handler newId req s =
     (let b = \<lparr>title = t, author = (case name u of None \<Rightarrow> ''unknown'' | Some n \<Rightarrow> n), url = l,
               likes = (case in_likes (body req) of None \<Rightarrow> 0 | Some v \<Rightarrow> v), user = uid u\<rparr>
      in s\<lparr>Blog_docs := (Blog_docs s)(newId \<mapsto> b),
           User_docs := (User_docs s)(uid u \<mapsto> u\<lparr>blogs := blogs u @ [newId]\<rparr>),
           sent := Some (201, BlogDocument b)\<rparr>)"
  using assms by (simp add: post_handler_def Blog_save_def required_def User_save_def json_def Let_def)

lemma post_handler_201:
  assumes "sent s = None" "sent (post_handler newId req s) = Some (201, p)"
  shows "\<exists>u t l. req_user req = Some u \<and> in_title (body req) = Some t \<and> t \<noteq> [] \<and>
    in_url (body req) = Some l \<and> l \<noteq> [] \<and> Blog_docs s newId = None"
  using assms
  by (auto simp: post_handler_def Blog_save_def required_def User_save_def json_def Let_def
      errorHandler_def finalhandler_def
      split: option.splits if_splits)

lemma castObjectId_Nil [simp]: "castObjectId [] = None"
  by (simp add: castObjectId_def)

lemma userExtractor_cases:
  assumes "sent s = None"
  shows "(\<exists>e. jwt_verify V (token req) = Inl e \<and> userExtractor V req s next = errorHandler e s)
       \<or> (\<exists>i k. jwt_verify V (token req) = Inr (Some i) \<and> castObjectId i = Some k \<and> userExtractor V req s next = next (req\<lparr>req_user := User_docs s k\<rparr>) s)
       \<or> (\<exists>i c p. jwt_verify V (token req) = Inr (Some i) \<and> castObjectId i = None \<and> (c = 400 \<or> c = 401) \<and> userExtractor V req s next = s\<lparr>sent := Some (c, p)\<rparr>)
       \<or> (jwt_verify V (token req) = Inr None \<and> userExtractor V req s next = next (req\<lparr>req_user := None\<rparr>) (s\<lparr>sent := Some (401, ErrorMessage ''JWT invalid'')\<rparr>))"
proof (cases "jwt_verify V (token req)")
  case (Inl e)
  then show ?thesis by (simp add: userExtractor_def)
next
  case (Inr d)
  show ?thesis
  proof (cases d)
    case None
    with Inr assms show ?thesis
      using userExtractor_no_id by simp
  next
    case (Some i)
    show ?thesis
    proof (cases "castObjectId i")
      case None
      with Inr Some assms
      have "userExtractor V req s next =
              s\<lparr>sent := Some (if i = [] then 401 else 400,
                   ErrorMessage (if i = [] then ''JWT invalid'' else ''malformatted id''))\<rparr>"
        by (simp add: userExtractor_def User_findById_def json_def errorHandler_def finalhandler_def)
      moreover have "(if i = [] then 401 else 400) = (400::nat) \<or> (if i = [] then 401 else 400) = (401::nat)"
        by simp
      ultimately show ?thesis using Inr Some None by blast
    next
      case (Some k)
      with Inr \<open>d = Some i\<close> show ?thesis using userExtractor_found by simp
    qed
  qed
qed


lemma post_201:
  assumes "sent s = None" "sent (blogsRouter_post V newId req s) = Some (201, p)"
  shows "\<exists>i k u t l. jwt_verify V (token req) = Inr (Some i) \<and> castObjectId i = Some k \<and>
    User_docs s k = Some u \<and> in_title (body req) = Some t \<and> t \<noteq> [] \<and>
    in_url (body req) = Some l \<and> l \<noteq> [] \<and> Blog_docs s newId = None"
proof -
  let ?r = "blogsRouter_post V newId req s"
  from userExtractor_cases [OF assms(1), of V req "post_handler newId"]
  consider (err) e where "jwt_verify V (token req) = Inl e" "?r = errorHandler e s"
    | (found) i k where "jwt_verify V (token req) = Inr (Some i)" "castObjectId i = Some k"
        "?r = post_handler newId (req\<lparr>req_user := User_docs s k\<rparr>) s"
    | (cast) c q where "c = 400 \<or> c = 401" "?r = s\<lparr>sent := Some (c, q)\<rparr>"
    | (noid) "?r = post_handler newId (req\<lparr>req_user := None\<rparr>) (s\<lparr>sent := Some (401, ErrorMessage ''JWT invalid'')\<rparr>)"
    unfolding blogsRouter_post_def by blast
  then show ?thesis
  proof cases
    case err
    with assms jwt_verify_error [OF err(1)] show ?thesis
      by (auto simp: errorHandler_def json_def)
  next
    case found
    with assms post_handler_201 [of s newId "req\<lparr>req_user := User_docs s k\<rparr>" p]
    show ?thesis by auto
  next
    case cast
    with assms show ?thesis by auto
  next
    case noid
    with assms show ?thesis by (simp add: post_handler_def errorHandler_sent_already)
  qed
qed


lemma post_201_result:
  assumes "sent s = None" "sent (blogsRouter_post V newId req s) = Some (201, p)"
  shows "\<exists>i k u t l. jwt_verify V (token req) = Inr (Some i) \<and> castObjectId i = Some k \<and>
    User_docs s k = Some u \<and> in_title (body req) = Some t \<and> in_url (body req) = Some l \<and>
    blogsRouter_post V newId req s =
      (let b = \<lparr>title = t, author = (case name u of None \<Rightarrow> ''unknown'' | Some n \<Rightarrow> n), url = l,
                likes = (case in_likes (body req) of None \<Rightarrow> 0 | Some v \<Rightarrow> v), user = uid u\<rparr>
       in s\<lparr>Blog_docs := (Blog_docs s)(newId \<mapsto> b),
            User_docs := (User_docs s)(uid u \<mapsto> u\<lparr>blogs := blogs u @ [newId]\<rparr>),
            sent := Some (201, BlogDocument b)\<rparr>)"
proof -
  from post_201 [OF assms] obtain i k u t l where
    h: "jwt_verify V (token req) = Inr (Some i)" "castObjectId i = Some k" "User_docs s k = Some u"
       "in_title (body req) = Some t" "t \<noteq> []" "in_url (body req) = Some l" "l \<noteq> []"
       "Blog_docs s newId = None"
    by blast
  have "blogsRouter_post V newId req s = post_handler newId (req\<lparr>req_user := Some u\<rparr>) s"
    using userExtractor_found [OF h(1,2)] h(3) by (simp add: blogsRouter_post_def)
  also have "\<dots> = (let b = \<lparr>title = t, author = (case name u of None \<Rightarrow> ''unknown'' | Some n \<Rightarrow> n), url = l,
                likes = (case in_likes (body req) of None \<Rightarrow> 0 | Some v \<Rightarrow> v), user = uid u\<rparr>
       in s\<lparr>Blog_docs := (Blog_docs s)(newId \<mapsto> b),
            User_docs := (User_docs s)(uid u \<mapsto> u\<lparr>blogs := blogs u @ [newId]\<rparr>),
            sent := Some (201, BlogDocument b)\<rparr>)"
    using post_handler_success [of "req\<lparr>req_user := Some u\<rparr>" u t l s newId] h assms(1) by simp
  finally show ?thesis using h by blast
qed

section \<open>Create\<close>

text \<open>
  Create succeeds on a fresh response when the token resolves to a stored user, the body
  has a non-empty title and url, and the new id is not taken.
\<close>

lemma create_succeeds:
  assumes "sent s = None" "jwt_verify V (token req) = Inr (Some i)" "castObjectId i = Some k"
    "User_docs s k = Some u" "in_title (body req) = Some t" "t \<noteq> []"
    "in_url (body req) = Some l" "l \<noteq> []" "Blog_docs s newId = None"
  shows "sent (blogsRouter_post V newId req s) =
           Some (201, BlogDocument
             \<lparr>title = t, author = (case name u of None \<Rightarrow> ''unknown'' | Some n \<Rightarrow> n), url = l,
              likes = (case in_likes (body req) of None \<Rightarrow> 0 | Some v \<Rightarrow> v), user = uid u\<rparr>)"
  using userExtractor_found [OF assms(2,3), of s "post_handler newId"] assms(4)
    post_handler_success [of "req\<lparr>req_user := Some u\<rparr>" u t l s newId] assms(1,5-9)
  by (simp add: blogsRouter_post_def Let_def)

text \<open>
  Claim C3. Whenever create answers 201, the token was valid and resolved to a user \<open>u\<close>,
  the body had a title and a url, a new Blog with these is stored under the new id with
  \<open>user\<close> equal to the requester's id, and the requester's stored document has the new
  id appended to its blogs.
\<close>

theorem create_persists_blog_and_back_reference:
  assumes "sent s = None" and "sent (blogsRouter_post V newId req s) = Some (201, p)"
  shows "\<exists>i k u b. jwt_verify V (token req) = Inr (Some i) \<and> castObjectId i = Some k \<and>
           User_docs s k = Some u \<and>
           in_title (body req) = Some (title b) \<and> in_url (body req) = Some (url b) \<and>
           p = BlogDocument b \<and>
           Blog_docs (blogsRouter_post V newId req s) newId = Some b \<and>
           user b = uid u \<and>
           User_docs (blogsRouter_post V newId req s) (uid u) = Some (u\<lparr>blogs := blogs u @ [newId]\<rparr>)"
proof -
  from post_201_result [OF assms] obtain i k u t l where
    h: "jwt_verify V (token req) = Inr (Some i)" "castObjectId i = Some k" "User_docs s k = Some u"
       "in_title (body req) = Some t" "in_url (body req) = Some l"
    and r: "blogsRouter_post V newId req s =
      (let b = \<lparr>title = t, author = (case name u of None \<Rightarrow> ''unknown'' | Some n \<Rightarrow> n), url = l,
                likes = (case in_likes (body req) of None \<Rightarrow> 0 | Some v \<Rightarrow> v), user = uid u\<rparr>
       in s\<lparr>Blog_docs := (Blog_docs s)(newId \<mapsto> b),
            User_docs := (User_docs s)(uid u \<mapsto> u\<lparr>blogs := blogs u @ [newId]\<rparr>),
            sent := Some (201, BlogDocument b)\<rparr>)"
    by blast
  from assms(2) r have "p = BlogDocument \<lparr>title = t, author = (case name u of None \<Rightarrow> ''unknown'' | Some n \<Rightarrow> n), url = l,
                likes = (case in_likes (body req) of None \<Rightarrow> 0 | Some v \<Rightarrow> v), user = uid u\<rparr>"
    by (simp add: Let_def)
  with h r show ?thesis by (simp add: Let_def)
qed

theorem create_persists_blog_and_back_reference_witness:
  "sent seed = None \<and>
   sent (blogsRouter_post signed id_new
          (tokenExtractor (bare\<lparr>authorization := Some ''Bearer bob.jwt'',
             body := no_body\<lparr>in_title := Some ''Types'', in_url := Some ''http://b.example/3''\<rparr>\<rparr>)) seed)
     = Some (201, BlogDocument \<lparr>title = ''Types'', author = ''unknown'', url = ''http://b.example/3'',
                likes = 0, user = id_bob\<rparr>) \<and>
   (\<exists>b. Blog_docs (blogsRouter_post signed id_new
          (tokenExtractor (bare\<lparr>authorization := Some ''Bearer bob.jwt'',
             body := no_body\<lparr>in_title := Some ''Types'', in_url := Some ''http://b.example/3''\<rparr>\<rparr>)) seed) id_new = Some b
       \<and> user b = id_bob)"
proof -
  let ?req = "tokenExtractor (bare\<lparr>authorization := Some ''Bearer bob.jwt'',
             body := no_body\<lparr>in_title := Some ''Types'', in_url := Some ''http://b.example/3''\<rparr>\<rparr>)"
  have h1: "sent seed = None" by (simp add: seed_def)
  have h2: "sent (blogsRouter_post signed id_new ?req seed)
     = Some (201, BlogDocument \<lparr>title = ''Types'', author = ''unknown'', url = ''http://b.example/3'',
                likes = 0, user = id_bob\<rparr>)"
    by code_simp
  from create_persists_blog_and_back_reference [OF h1 h2]
  have "\<exists>b. Blog_docs (blogsRouter_post signed id_new ?req seed) id_new = Some b \<and> user b = id_bob"
    by auto
  with h1 h2 show ?thesis by blast
qed

text \<open>
  Claim C8. Whenever create answers 201, the stored blog is the one returned; if the body has
  no author, its author is the requesting user's name, or \<open>''unknown''\<close> when the user has
  no name; if the body has no likes, its likes are 0.
\<close>

theorem create_defaults_author_and_likes:
  assumes "sent s = None" and "sent (blogsRouter_post V newId req s) = Some (201, p)"
  shows "\<exists>i k u b. jwt_verify V (token req) = Inr (Some i) \<and> castObjectId i = Some k \<and>
           User_docs s k = Some u \<and> p = BlogDocument b \<and>
           Blog_docs (blogsRouter_post V newId req s) newId = Some b \<and>
           (in_author (body req) = None \<longrightarrow>
              author b = (case name u of None \<Rightarrow> ''unknown'' | Some n \<Rightarrow> n)) \<and>
           (in_likes (body req) = None \<longrightarrow> likes b = 0)"
proof -
  from post_201_result [OF assms] obtain i k u t l where
    h: "jwt_verify V (token req) = Inr (Some i)" "castObjectId i = Some k" "User_docs s k = Some u"
    and r: "blogsRouter_post V newId req s =
      (let b = \<lparr>title = t, author = (case name u of None \<Rightarrow> ''unknown'' | Some n \<Rightarrow> n), url = l,
                likes = (case in_likes (body req) of None \<Rightarrow> 0 | Some v \<Rightarrow> v), user = uid u\<rparr>
       in s\<lparr>Blog_docs := (Blog_docs s)(newId \<mapsto> b),
            User_docs := (User_docs s)(uid u \<mapsto> u\<lparr>blogs := blogs u @ [newId]\<rparr>),
            sent := Some (201, BlogDocument b)\<rparr>)"
    by blast
  from assms(2) r have "p = BlogDocument \<lparr>title = t, author = (case name u of None \<Rightarrow> ''unknown'' | Some n \<Rightarrow> n), url = l,
                likes = (case in_likes (body req) of None \<Rightarrow> 0 | Some v \<Rightarrow> v), user = uid u\<rparr>"
    by (simp add: Let_def)
  with h r show ?thesis by (simp add: Let_def)
qed

theorem create_defaults_author_and_likes_witness:
  "sent seed = None \<and>
   sent (blogsRouter_post signed id_new
          (tokenExtractor (bare\<lparr>authorization := Some ''Bearer alice.jwt'',
             body := no_body\<lparr>in_title := Some ''Sets'', in_url := Some ''http://a.example/3''\<rparr>\<rparr>)) seed)
     = Some (201, BlogDocument \<lparr>title = ''Sets'', author = ''Alice A'', url = ''http://a.example/3'',
                likes = 0, user = id_alice\<rparr>) \<and>
   (\<exists>b. Blog_docs (blogsRouter_post signed id_new
          (tokenExtractor (bare\<lparr>authorization := Some ''Bearer alice.jwt'',
             body := no_body\<lparr>in_title := Some ''Sets'', in_url := Some ''http://a.example/3''\<rparr>\<rparr>)) seed) id_new = Some b
       \<and> author b = ''Alice A'' \<and> likes b = 0)"
proof -
  let ?req = "tokenExtractor (bare\<lparr>authorization := Some ''Bearer alice.jwt'',
             body := no_body\<lparr>in_title := Some ''Sets'', in_url := Some ''http://a.example/3''\<rparr>\<rparr>)"
  have h1: "sent seed = None" by (simp add: seed_def)
  have h2: "sent (blogsRouter_post signed id_new ?req seed)
     = Some (201, BlogDocument \<lparr>title = ''Sets'', author = ''Alice A'', url = ''http://a.example/3'',
                likes = 0, user = id_alice\<rparr>)"
    by code_simp
  from create_defaults_author_and_likes [OF h1 h2]
  have "\<exists>b. Blog_docs (blogsRouter_post signed id_new ?req seed) id_new = Some b
          \<and> author b = ''Alice A'' \<and> likes b = 0"
    by auto
  with h1 h2 show ?thesis by blast
qed

text \<open>
  Claim C9. Whenever create answers 201, the stored blog's author is the requesting user's
  name, or \<open>''unknown''\<close> when the user has no name, whatever the body says: an author in
  the body that differs from it is not stored.
\<close>

theorem create_overrides_body_author:
  assumes "sent s = None" and "sent (blogsRouter_post V newId req s) = Some (201, p)"
  shows "\<exists>i k u b. jwt_verify V (token req) = Inr (Some i) \<and> castObjectId i = Some k \<and>
           User_docs s k = Some u \<and> p = BlogDocument b \<and>
           Blog_docs (blogsRouter_post V newId req s) newId = Some b \<and>
           author b = (case name u of None \<Rightarrow> ''unknown'' | Some n \<Rightarrow> n) \<and>
           (\<forall>a. in_author (body req) = Some a \<longrightarrow>
                a \<noteq> (case name u of None \<Rightarrow> ''unknown'' | Some n \<Rightarrow> n) \<longrightarrow> author b \<noteq> a)"
proof -
  from post_201_result [OF assms] obtain i k u t l where
    h: "jwt_verify V (token req) = Inr (Some i)" "castObjectId i = Some k" "User_docs s k = Some u"
    and r: "blogsRouter_post V newId req s =
      (let b = \<lparr>title = t, author = (case name u of None \<Rightarrow> ''unknown'' | Some n \<Rightarrow> n), url = l,
                likes = (case in_likes (body req) of None \<Rightarrow> 0 | Some v \<Rightarrow> v), user = uid u\<rparr>
       in s\<lparr>Blog_docs := (Blog_docs s)(newId \<mapsto> b),
            User_docs := (User_docs s)(uid u \<mapsto> u\<lparr>blogs := blogs u @ [newId]\<rparr>),
            sent := Some (201, BlogDocument b)\<rparr>)"
    by blast
  from assms(2) r have "p = BlogDocument \<lparr>title = t, author = (case name u of None \<Rightarrow> ''unknown'' | Some n \<Rightarrow> n), url = l,
                likes = (case in_likes (body req) of None \<Rightarrow> 0 | Some v \<Rightarrow> v), user = uid u\<rparr>"
    by (simp add: Let_def)
  with h r show ?thesis by (simp add: Let_def)
qed

theorem create_overrides_body_author_witness:
  "sent seed = None \<and>
   in_author (body (tokenExtractor (bare\<lparr>authorization := Some ''Bearer bob.jwt'',
             body := no_body\<lparr>in_title := Some ''Maps'', in_author := Some ''Test Dummy'',
                              in_url := Some ''http://b.example/4'', in_likes := Some 5\<rparr>\<rparr>)))
     = Some ''Test Dummy'' \<and>
   sent (blogsRouter_post signed id_new
          (tokenExtractor (bare\<lparr>authorization := Some ''Bearer bob.jwt'',
             body := no_body\<lparr>in_title := Some ''Maps'', in_author := Some ''Test Dummy'',
                              in_url := Some ''http://b.example/4'', in_likes := Some 5\<rparr>\<rparr>)) seed)
     = Some (201, BlogDocument \<lparr>title = ''Maps'', author = ''unknown'', url = ''http://b.example/4'',
                likes = 5, user = id_bob\<rparr>) \<and>
   (\<exists>b. Blog_docs (blogsRouter_post signed id_new
          (tokenExtractor (bare\<lparr>authorization := Some ''Bearer bob.jwt'',
             body := no_body\<lparr>in_title := Some ''Maps'', in_author := Some ''Test Dummy'',
                              in_url := Some ''http://b.example/4'', in_likes := Some 5\<rparr>\<rparr>)) seed) id_new = Some b
       \<and> author b = ''unknown'' \<and> author b \<noteq> ''Test Dummy'')"
proof -
  let ?req = "tokenExtractor (bare\<lparr>authorization := Some ''Bearer bob.jwt'',
             body := no_body\<lparr>in_title := Some ''Maps'', in_author := Some ''Test Dummy'',
                              in_url := Some ''http://b.example/4'', in_likes := Some 5\<rparr>\<rparr>)"
  have h0: "in_author (body ?req) = Some ''Test Dummy''"
    by (simp add: tokenExtractor_def bare_def no_body_def)
  have h1: "sent seed = None" by (simp add: seed_def)
  have h2: "sent (blogsRouter_post signed id_new ?req seed)
     = Some (201, BlogDocument \<lparr>title = ''Maps'', author = ''unknown'', url = ''http://b.example/4'',
                likes = 5, user = id_bob\<rparr>)"
    by code_simp
  from create_overrides_body_author [OF h1 h2]
  have "\<exists>b. Blog_docs (blogsRouter_post signed id_new ?req seed) id_new = Some b
          \<and> author b = ''unknown'' \<and> author b \<noteq> ''Test Dummy''"
    by auto
  with h0 h1 h2 show ?thesis by blast
qed

text \<open>
  Claim C7. A create request whose token is missing, does not verify or has expired (and
  also one whose verified payload has no id) is answered 401, and neither collection
  changes: no blog is persisted.
\<close>

theorem create_rejects_bad_token:
  assumes "jwt_verify V (token req) = Inl e \<or> jwt_verify V (token req) = Inr None"
    and "sent s = None"
  shows "sent (blogsRouter_post V newId req s) =
           Some (401, ErrorMessage (if jwt_verify V (token req) = Inl TokenExpiredError
                                    then ''JWT expired'' else ''JWT invalid''))
         \<and> Blog_docs (blogsRouter_post V newId req s) = Blog_docs s
         \<and> User_docs (blogsRouter_post V newId req s) = User_docs s"
proof (cases "jwt_verify V (token req)")
  case (Inl e')
  with assms(2) jwt_verify_error [OF Inl] show ?thesis
    by (auto simp: blogsRouter_post_def userExtractor_def errorHandler_def json_def)
next
  case (Inr d)
  with assms(1) have d: "jwt_verify V (token req) = Inr None" by simp
  from userExtractor_no_id [OF d assms(2)] d show ?thesis
    by (simp add: blogsRouter_post_def post_handler_def errorHandler_sent_already)
qed

theorem create_rejects_bad_token_witness:
  "jwt_verify signed (token (tokenExtractor (bare\<lparr>body := no_body\<lparr>in_title := Some ''Maps'',
        in_url := Some ''http://b.example/4''\<rparr>\<rparr>))) = Inl JsonWebTokenError \<and>
   jwt_verify signed (token (tokenExtractor (bare\<lparr>authorization := Some ''Bearer stale.jwt''\<rparr>)))
     = Inl TokenExpiredError \<and>
   sent seed = None \<and>
   sent (blogsRouter_post signed id_new (tokenExtractor (bare\<lparr>body := no_body\<lparr>in_title := Some ''Maps'',
        in_url := Some ''http://b.example/4''\<rparr>\<rparr>)) seed) = Some (401, ErrorMessage ''JWT invalid'') \<and>
   Blog_docs (blogsRouter_post signed id_new (tokenExtractor (bare\<lparr>body := no_body\<lparr>in_title := Some ''Maps'',
        in_url := Some ''http://b.example/4''\<rparr>\<rparr>)) seed) = Blog_docs seed \<and>
   sent (blogsRouter_post signed id_new (tokenExtractor (bare\<lparr>authorization := Some ''Bearer stale.jwt''\<rparr>)) seed)
     = Some (401, ErrorMessage ''JWT expired'')"
proof -
  let ?r1 = "tokenExtractor (bare\<lparr>body := no_body\<lparr>in_title := Some ''Maps'',
        in_url := Some ''http://b.example/4''\<rparr>\<rparr>)"
  let ?r2 = "tokenExtractor (bare\<lparr>authorization := Some ''Bearer stale.jwt''\<rparr>)"
  have h1: "jwt_verify signed (token ?r1) = Inl JsonWebTokenError"
    by (simp add: tokenExtractor_def bare_def jwt_verify_def)
  have h2: "jwt_verify signed (token ?r2) = Inl TokenExpiredError"
    by (simp add: tokenExtractor_def bare_def jwt_verify_def signed_def)
  have h3: "sent seed = None" by (simp add: seed_def)
  show ?thesis
    using h1 h2 h3 create_rejects_bad_token [OF disjI1 [OF h1] h3, of id_new]
      create_rejects_bad_token [OF disjI1 [OF h2] h3, of id_new]
    by simp
qed

section \<open>The user extractor\<close>

text \<open>
  Claim C10. When the token verifies and its payload has no id, \<open>userExtractor\<close> writes
  the 401 response and still calls \<open>next\<close>: the route handler runs on the state in which
  the 401 has gone out, with \<open>request.user\<close> the result of looking up an undefined id,
  which is no user.
\<close>

theorem userExtractor_without_id_answers_401_and_calls_next:
  assumes "jwt_verify V (token req) = Inr None" and "sent s = None"
  shows "userExtractor V req s next =
           next (req\<lparr>req_user := None\<rparr>) (s\<lparr>sent := Some (401, ErrorMessage ''JWT invalid'')\<rparr>)
         \<and> User_findById None s = Inr None"
  using assms by (simp add: userExtractor_def json_def User_findById_def)

theorem userExtractor_without_id_answers_401_and_calls_next_witness:
  "jwt_verify signed (token (tokenExtractor (bare\<lparr>authorization := Some ''Bearer anon.jwt'',
       params_id := ''64b000000000000000000001''\<rparr>))) = Inr None \<and>
   sent seed = None \<and>
   blogsRouter_delete signed (tokenExtractor (bare\<lparr>authorization := Some ''Bearer anon.jwt'',
       params_id := ''64b000000000000000000001''\<rparr>)) seed
     = delete_handler
         ((tokenExtractor (bare\<lparr>authorization := Some ''Bearer anon.jwt'',
             params_id := ''64b000000000000000000001''\<rparr>))\<lparr>req_user := None\<rparr>)
         (seed\<lparr>sent := Some (401, ErrorMessage ''JWT invalid'')\<rparr>)"
proof -
  let ?req = "tokenExtractor (bare\<lparr>authorization := Some ''Bearer anon.jwt'',
       params_id := ''64b000000000000000000001''\<rparr>)"
  have h1: "jwt_verify signed (token ?req) = Inr None"
    by (simp add: tokenExtractor_def bare_def jwt_verify_def signed_def)
  have h2: "sent seed = None" by (simp add: seed_def)
  show ?thesis
    using h1 h2 userExtractor_without_id_answers_401_and_calls_next [OF h1 h2, of delete_handler]
    by (simp add: blogsRouter_delete_def)
qed

section \<open>Delete\<close>

text \<open>
  What the handler does on a fresh response, for a requester that was found: the blog is
  removed whenever the id casts, whether or not the requester lists it; the answer is 401
  whenever the requester does not list the id, whether or not it casts.
\<close>

lemma delete_handler_result:
  assumes "sent s = None" "req_user req = Some u"
  shows "delete_handler req s =
    (case castObjectId (params_id req) of
       None \<Rightarrow>
         s\<lparr>sent := Some (if params_id req \<in> set (map toString (blogs u))
                          then (400, ErrorMessage ''malformatted id'')
                          else (401, ErrorMessage ''unauthorized blog operation''))\<rparr>
     | Some oid \<Rightarrow>
         s\<lparr>Blog_docs := (Blog_docs s)(oid := None),
           sent := Some (if params_id req \<in> set (map toString (blogs u))
                          then (204, Empty)
                          else (401, ErrorMessage ''unauthorized blog operation''))\<rparr>)"
  using assms
  by (simp add: delete_handler_def json_def Blog_findByIdAndDelete_def errorHandler_def
      finalhandler_def end_response_def Let_def split: option.splits)

lemma delete_by_non_owner:
  assumes "sent s = None" "jwt_verify V (token req) = Inr (Some i)" "castObjectId i = Some k"
    "User_docs s k = Some u" "castObjectId (params_id req) = Some oid"
    "params_id req \<notin> set (map toString (blogs u))"
  shows "blogsRouter_delete V req s =
           s\<lparr>Blog_docs := (Blog_docs s)(oid := None),
             sent := Some (401, ErrorMessage ''unauthorized blog operation'')\<rparr>"
  using userExtractor_found [OF assms(2,3), of s delete_handler] assms(4)
    delete_handler_result [of s "req\<lparr>req_user := Some u\<rparr>" u] assms(1,5,6)
  by (simp add: blogsRouter_delete_def)

lemma delete_malformed_id:
  assumes "sent s = None" "jwt_verify V (token req) = Inr (Some i)" "castObjectId i = Some k"
    "User_docs s k = Some u" "castObjectId (params_id req) = None"
  shows "blogsRouter_delete V req s =
           s\<lparr>sent := Some (if params_id req \<in> set (map toString (blogs u))
                            then (400, ErrorMessage ''malformatted id'')
                            else (401, ErrorMessage ''unauthorized blog operation''))\<rparr>"
  using userExtractor_found [OF assms(2,3), of s delete_handler] assms(4)
    delete_handler_result [of s "req\<lparr>req_user := Some u\<rparr>" u] assms(1,5)
  by (simp add: blogsRouter_delete_def)

lemma delete_204:
  assumes "sent s = None" "sent (blogsRouter_delete V req s) = Some (204, p)"
  shows "\<exists>i k u oid. jwt_verify V (token req) = Inr (Some i) \<and> castObjectId i = Some k \<and>
    User_docs s k = Some u \<and> castObjectId (params_id req) = Some oid \<and>
    params_id req \<in> set (map toString (blogs u)) \<and>
    blogsRouter_delete V req s = s\<lparr>Blog_docs := (Blog_docs s)(oid := None), sent := Some (204, Empty)\<rparr>"
proof -
  let ?r = "blogsRouter_delete V req s"
  from userExtractor_cases [OF assms(1), of V req delete_handler]
  consider (err) e where "jwt_verify V (token req) = Inl e" "?r = errorHandler e s"
    | (found) i k where "jwt_verify V (token req) = Inr (Some i)" "castObjectId i = Some k"
        "?r = delete_handler (req\<lparr>req_user := User_docs s k\<rparr>) s"
    | (cast) c q where "c = 400 \<or> c = 401" "?r = s\<lparr>sent := Some (c, q)\<rparr>"
    | (noid) "?r = delete_handler (req\<lparr>req_user := None\<rparr>) (s\<lparr>sent := Some (401, ErrorMessage ''JWT invalid'')\<rparr>)"
    unfolding blogsRouter_delete_def by blast
  then show ?thesis
  proof cases
    case err
    with assms jwt_verify_error [OF err(1)] show ?thesis
      by (auto simp: errorHandler_def json_def)
  next
    case found
    show ?thesis
    proof (cases "User_docs s k")
      case None
      with found assms show ?thesis
        by (simp add: delete_handler_def errorHandler_def finalhandler_def)
    next
      case (Some u)
      with found assms delete_handler_result [of s "req\<lparr>req_user := Some u\<rparr>" u]
      show ?thesis by (auto split: option.splits if_splits)
    qed
  next
    case cast
    with assms show ?thesis by auto
  next
    case noid
    with assms show ?thesis by (simp add: delete_handler_def errorHandler_sent_already)
  qed
qed

text \<open>
  Claim C5. Whenever delete answers 204, the requester lists the id among its blogs, the
  blog is gone from the Blog collection, and the User collection is as it was: the
  requester's document still lists the id of the deleted blog.
\<close>

theorem delete_keeps_back_reference:
  assumes "sent s = None" and "sent (blogsRouter_delete V req s) = Some (204, p)"
  shows "\<exists>i k u oid. jwt_verify V (token req) = Inr (Some i) \<and> castObjectId i = Some k \<and>
           User_docs s k = Some u \<and> castObjectId (params_id req) = Some oid \<and>
           params_id req \<in> set (map toString (blogs u)) \<and>
           Blog_docs (blogsRouter_delete V req s) oid = None \<and>
           User_docs (blogsRouter_delete V req s) = User_docs s \<and>
           User_docs (blogsRouter_delete V req s) k = Some u"
proof -
  from delete_204 [OF assms] obtain i k u oid where
    h: "jwt_verify V (token req) = Inr (Some i)" "castObjectId i = Some k"
       "User_docs s k = Some u" "castObjectId (params_id req) = Some oid"
       "params_id req \<in> set (map toString (blogs u))"
    and r: "blogsRouter_delete V req s =
              s\<lparr>Blog_docs := (Blog_docs s)(oid := None), sent := Some (204, Empty)\<rparr>"
    by blast
  from h r show ?thesis by simp
qed

theorem delete_keeps_back_reference_witness:
  "sent seed = None \<and>
   sent (blogsRouter_delete signed
          (tokenExtractor (bare\<lparr>authorization := Some ''Bearer bob.jwt'',
             params_id := ''64b000000000000000000002''\<rparr>)) seed) = Some (204, Empty) \<and>
   Blog_docs seed id_blog2 = Some blog2 \<and>
   Blog_docs (blogsRouter_delete signed
          (tokenExtractor (bare\<lparr>authorization := Some ''Bearer bob.jwt'',
             params_id := ''64b000000000000000000002''\<rparr>)) seed) id_blog2 = None \<and>
   User_docs (blogsRouter_delete signed
          (tokenExtractor (bare\<lparr>authorization := Some ''Bearer bob.jwt'',
             params_id := ''64b000000000000000000002''\<rparr>)) seed) id_bob = Some bob \<and>
   id_blog2 \<in> set (blogs bob)"
proof -
  let ?req = "tokenExtractor (bare\<lparr>authorization := Some ''Bearer bob.jwt'',
             params_id := ''64b000000000000000000002''\<rparr>)"
  have h1: "sent seed = None" by (simp add: seed_def)
  have h2: "sent (blogsRouter_delete signed ?req seed) = Some (204, Empty)"
    by code_simp
  have h3: "Blog_docs seed id_blog2 = Some blog2" by code_simp
  have h4: "Blog_docs (blogsRouter_delete signed ?req seed) id_blog2 = None" by code_simp
  have h5: "User_docs seed id_bob = Some bob" by code_simp
  have h6: "id_blog2 \<in> set (blogs bob)" by (simp add: bob_def)
  from delete_keeps_back_reference [OF h1 h2]
  have "User_docs (blogsRouter_delete signed ?req seed) = User_docs seed" by blast
  with h1 h2 h3 h4 h5 h6 show ?thesis by simp
qed

text \<open>
  Claim C1. A delete by a user who does not own the blog: with alice's token and the
  well-formed id of bob's blog the answer is 401, and the blog, stored before the request,
  is gone after it.
\<close>

theorem delete_by_non_owner_removes_the_blog:
  "jwt_verify signed (token (tokenExtractor (bare\<lparr>authorization := Some ''Bearer alice.jwt'',
       params_id := ''64b000000000000000000002''\<rparr>))) = Inr (Some ''64a000000000000000000001'') \<and>
   castObjectId ''64a000000000000000000001'' = Some id_alice \<and>
   User_docs seed id_alice = Some alice \<and>
   castObjectId ''64b000000000000000000002'' = Some id_blog2 \<and>
   ''64b000000000000000000002'' \<notin> set (map toString (blogs alice)) \<and>
   Blog_docs seed id_blog2 = Some blog2 \<and>
   sent (blogsRouter_delete signed
          (tokenExtractor (bare\<lparr>authorization := Some ''Bearer alice.jwt'',
             params_id := ''64b000000000000000000002''\<rparr>)) seed)
     = Some (401, ErrorMessage ''unauthorized blog operation'') \<and>
   Blog_docs (blogsRouter_delete signed
          (tokenExtractor (bare\<lparr>authorization := Some ''Bearer alice.jwt'',
             params_id := ''64b000000000000000000002''\<rparr>)) seed) id_blog2 = None"
  by code_simp

text \<open>
  Claim C2. A delete with an id that is not well-formed: with bob's token and the id
  \<open>''---invalid-fomat---''\<close> of the tests the answer that goes out is the 401 of the
  ownership test, not the 400 of the cast error that follows it.
\<close>

theorem delete_malformed_id_answers_401:
  "jwt_verify signed (token (tokenExtractor (bare\<lparr>authorization := Some ''Bearer bob.jwt'',
       params_id := ''---invalid-fomat---''\<rparr>))) = Inr (Some ''64a000000000000000000002'') \<and>
   castObjectId ''64a000000000000000000002'' = Some id_bob \<and>
   User_docs seed id_bob = Some bob \<and>
   castObjectId ''---invalid-fomat---'' = None \<and>
   sent (blogsRouter_delete signed
          (tokenExtractor (bare\<lparr>authorization := Some ''Bearer bob.jwt'',
             params_id := ''---invalid-fomat---''\<rparr>)) seed)
     = Some (401, ErrorMessage ''unauthorized blog operation'')"
  by code_simp

section \<open>Update\<close>

lemma put_handler_result:
  assumes "sent s = None" "castObjectId (params_id req) = Some oid"
    and "upd = \<lparr>up_title = in_title (body req), up_author = in_author (body req),
                up_likes = in_likes (body req), up_url = in_url (body req)\<rparr>"
  shows "blogsRouter_put req s =
    (if \<not> updateValid upd then s\<lparr>sent := Some (400, ErrorMessage ''Validation failed'')\<rparr>
     else case Blog_docs s oid of
        None \<Rightarrow> s\<lparr>sent := Some (404, Empty)\<rparr>
      | Some b \<Rightarrow> s\<lparr>Blog_docs := (Blog_docs s)(oid \<mapsto> applyUpdate upd b),
                    sent := Some (200, BlogDocument (applyUpdate upd b))\<rparr>)"
  using assms
  by (simp add: blogsRouter_put_def put_handler_def Blog_findByIdAndUpdate_def errorHandler_def
      json_def end_response_def finalhandler_def Let_def split: option.splits)

lemma put_Blog_docs:
  "Blog_docs (blogsRouter_put req s) =
     (case castObjectId (params_id req) of None \<Rightarrow> Blog_docs s
      | Some oid \<Rightarrow>
         (case Blog_docs s oid of None \<Rightarrow> Blog_docs s
          | Some b \<Rightarrow>
             if updateValid \<lparr>up_title = in_title (body req), up_author = in_author (body req),
                up_likes = in_likes (body req), up_url = in_url (body req)\<rparr>
             then (Blog_docs s)(oid \<mapsto> applyUpdate \<lparr>up_title = in_title (body req), up_author = in_author (body req),
                up_likes = in_likes (body req), up_url = in_url (body req)\<rparr> b)
             else Blog_docs s))"
  by (simp add: blogsRouter_put_def put_handler_def Blog_findByIdAndUpdate_def 
      json_def end_response_def Let_def split: option.splits)

lemma put_User_docs: "User_docs (blogsRouter_put req s) = User_docs s"
  by (simp add: blogsRouter_put_def put_handler_def Blog_findByIdAndUpdate_def 
      json_def end_response_def Let_def split: option.splits)

text \<open>
  Claim C6. An update of an existing blog leaves the blog's \<open>user\<close> as it was, leaves
  every other blog and the User collection as they were, and does not depend on the
  \<open>user\<close> field or on any other extra field of the body: these are dropped.
\<close>

theorem update_mutates_only_the_four_fields:
  assumes "castObjectId (params_id req) = Some oid" and "Blog_docs s oid = Some b"
  shows "(\<exists>b'. Blog_docs (blogsRouter_put req s) oid = Some b' \<and> user b' = user b)
       \<and> (\<forall>k. k \<noteq> oid \<longrightarrow> Blog_docs (blogsRouter_put req s) k = Blog_docs s k)
       \<and> User_docs (blogsRouter_put req s) = User_docs s
       \<and> blogsRouter_put (req\<lparr>body := (body req)\<lparr>in_user := x, in_other := y\<rparr>\<rparr>) s
           = blogsRouter_put req s"
proof -
  have "\<exists>b'. Blog_docs (blogsRouter_put req s) oid = Some b' \<and> user b' = user b"
    using assms by (simp add: put_Blog_docs applyUpdate_def)
  moreover have "\<forall>k. k \<noteq> oid \<longrightarrow> Blog_docs (blogsRouter_put req s) k = Blog_docs s k"
    using assms by (simp add: put_Blog_docs)
  moreover have "blogsRouter_put (req\<lparr>body := (body req)\<lparr>in_user := x, in_other := y\<rparr>\<rparr>) s
           = blogsRouter_put req s"
    by (simp add: blogsRouter_put_def put_handler_def)
  ultimately show ?thesis by (simp add: put_User_docs)
qed

theorem update_mutates_only_the_four_fields_witness:
  "castObjectId ''64b000000000000000000001'' = Some id_blog1 \<and>
   Blog_docs seed id_blog1 = Some blog1 \<and>
   Blog_docs (blogsRouter_put (bare\<lparr>params_id := ''64b000000000000000000001'',
            body := no_body\<lparr>in_title := Some ''update''\<rparr>\<rparr>) seed) id_blog1
     = Some (blog1\<lparr>title := ''update''\<rparr>) \<and>
   Blog_docs (blogsRouter_put (bare\<lparr>params_id := ''64b000000000000000000001'',
            body := no_body\<lparr>in_title := Some ''update''\<rparr>\<rparr>) seed) id_blog2 = Some blog2 \<and>
   blogsRouter_put (bare\<lparr>params_id := ''64b000000000000000000001'',
       body := no_body\<lparr>in_title := Some ''update'', in_user := Some ''64a000000000000000000002'',
                       in_other := [(''additional'', ''should-not-contain-this'')]\<rparr>\<rparr>) seed
     = blogsRouter_put (bare\<lparr>params_id := ''64b000000000000000000001'',
            body := no_body\<lparr>in_title := Some ''update''\<rparr>\<rparr>) seed"
proof -
  let ?req = "bare\<lparr>params_id := ''64b000000000000000000001'',
            body := no_body\<lparr>in_title := Some ''update''\<rparr>\<rparr>"
  have h1: "castObjectId (params_id ?req) = Some id_blog1" by code_simp
  have h2: "Blog_docs seed id_blog1 = Some blog1" by code_simp
  have h3: "id_blog2 \<noteq> id_blog1" by code_simp
  have h4: "Blog_docs (blogsRouter_put ?req seed) id_blog1 = Some (blog1\<lparr>title := ''update''\<rparr>)"
    by code_simp
  have h5: "castObjectId ''64b000000000000000000001'' = Some id_blog1" by code_simp
  have h6: "Blog_docs seed id_blog2 = Some blog2" by code_simp
  from update_mutates_only_the_four_fields [OF h1 h2,
      where x = "Some ''64a000000000000000000002''"
        and y = "[(''additional'', ''should-not-contain-this'')]"]
  show ?thesis using h2 h3 h4 h5 h6 by (auto simp: no_body_def bare_def)
qed

text \<open>
  An update with an empty title of a well-formed id that resolves to no blog is answered
  400, not 404: the validators run on the update before the lookup.
\<close>

theorem update_of_missing_blog_with_invalid_title_counterexample:
  "castObjectId ''64b000000000000000000009'' = Some (ObjectId ''64b000000000000000000009'') \<and>
   Blog_docs seed (ObjectId ''64b000000000000000000009'') = None \<and>
   sent seed = None \<and>
   sent (blogsRouter_put (bare\<lparr>params_id := ''64b000000000000000000009'',
           body := no_body\<lparr>in_title := Some []\<rparr>\<rparr>) seed)
     = Some (400, ErrorMessage ''Validation failed'')"
  by code_simp

lemma updateValid_iff:
  "updateValid upd = (up_title upd \<noteq> Some [] \<and> up_url upd \<noteq> Some [])"
  by (auto simp: updateValid_def required_def split: option.splits)

text \<open>
  Claim C4, amended. For an update with a well-formed id and a body whose fields have the
  schema's types: if the title or the url is given and empty, the answer is 400 whether or
  not the id resolves to a blog, and nothing changes; otherwise, if the id resolves to no
  blog the answer is 404 and nothing changes, and if it resolves to a blog the answer is
  200 with the updated blog, which is stored.
\<close>

theorem update_answers_400_404_or_200:
  assumes "sent s = None" and "castObjectId (params_id req) = Some oid"
    and "upd = \<lparr>up_title = in_title (body req), up_author = in_author (body req),
                up_likes = in_likes (body req), up_url = in_url (body req)\<rparr>"
  shows "(in_title (body req) = Some [] \<or> in_url (body req) = Some [] \<longrightarrow>
            blogsRouter_put req s = s\<lparr>sent := Some (400, ErrorMessage ''Validation failed'')\<rparr>)
       \<and> (in_title (body req) \<noteq> Some [] \<and> in_url (body req) \<noteq> Some [] \<longrightarrow>
            (Blog_docs s oid = None \<longrightarrow> blogsRouter_put req s = s\<lparr>sent := Some (404, Empty)\<rparr>)
          \<and> (\<forall>b. Blog_docs s oid = Some b \<longrightarrow>
                blogsRouter_put req s =
                  s\<lparr>Blog_docs := (Blog_docs s)(oid \<mapsto> applyUpdate upd b),
                    sent := Some (200, BlogDocument (applyUpdate upd b))\<rparr>))"
proof -
  have v: "updateValid upd = (in_title (body req) \<noteq> Some [] \<and> in_url (body req) \<noteq> Some [])"
    using assms(3) by (simp add: updateValid_iff)
  show ?thesis
    using put_handler_result [OF assms] v by auto
qed

theorem update_answers_400_404_or_200_witness:
  "sent seed = None \<and>
   castObjectId ''64b000000000000000000009'' = Some (ObjectId ''64b000000000000000000009'') \<and>
   Blog_docs seed (ObjectId ''64b000000000000000000009'') = None \<and>
   castObjectId ''64b000000000000000000001'' = Some id_blog1 \<and>
   Blog_docs seed id_blog1 = Some blog1 \<and>
   blogsRouter_put (bare\<lparr>params_id := ''64b000000000000000000001'',
       body := no_body\<lparr>in_title := Some []\<rparr>\<rparr>) seed
     = seed\<lparr>sent := Some (400, ErrorMessage ''Validation failed'')\<rparr> \<and>
   blogsRouter_put (bare\<lparr>params_id := ''64b000000000000000000009'',
       body := no_body\<lparr>in_title := Some []\<rparr>\<rparr>) seed
     = seed\<lparr>sent := Some (400, ErrorMessage ''Validation failed'')\<rparr> \<and>
   blogsRouter_put (bare\<lparr>params_id := ''64b000000000000000000009'',
       body := no_body\<lparr>in_title := Some ''update''\<rparr>\<rparr>) seed = seed\<lparr>sent := Some (404, Empty)\<rparr> \<and>
   blogsRouter_put (bare\<lparr>params_id := ''64b000000000000000000001'',
       body := no_body\<lparr>in_title := Some ''update''\<rparr>\<rparr>) seed
     = seed\<lparr>Blog_docs := (Blog_docs seed)(id_blog1 \<mapsto> blog1\<lparr>title := ''update''\<rparr>),
            sent := Some (200, BlogDocument (blog1\<lparr>title := ''update''\<rparr>))\<rparr>"
proof -
  let ?good = "\<lparr>up_title = Some ''update'', up_author = None, up_likes = None, up_url = None\<rparr>"
  let ?bad = "\<lparr>up_title = Some [], up_author = None, up_likes = None, up_url = None\<rparr>"
  let ?g9 = "bare\<lparr>params_id := ''64b000000000000000000009'',
       body := no_body\<lparr>in_title := Some ''update''\<rparr>\<rparr>"
  let ?g1 = "bare\<lparr>params_id := ''64b000000000000000000001'',
       body := no_body\<lparr>in_title := Some ''update''\<rparr>\<rparr>"
  let ?b9 = "bare\<lparr>params_id := ''64b000000000000000000009'',
       body := no_body\<lparr>in_title := Some []\<rparr>\<rparr>"
  let ?b1 = "bare\<lparr>params_id := ''64b000000000000000000001'',
       body := no_body\<lparr>in_title := Some []\<rparr>\<rparr>"
  have h1: "sent seed = None" by (simp add: seed_def)
  have c9: "castObjectId ''64b000000000000000000009'' = Some (ObjectId ''64b000000000000000000009'')"
    by code_simp
  have c1: "castObjectId ''64b000000000000000000001'' = Some id_blog1" by code_simp
  have g9: "castObjectId (params_id ?g9) = Some (ObjectId ''64b000000000000000000009'')"
    using c9 by (simp add: bare_def)
  have g1: "castObjectId (params_id ?g1) = Some id_blog1" using c1 by (simp add: bare_def)
  have b9: "castObjectId (params_id ?b9) = Some (ObjectId ''64b000000000000000000009'')"
    using c9 by (simp add: bare_def)
  have b1: "castObjectId (params_id ?b1) = Some id_blog1" using c1 by (simp add: bare_def)
  have ug9: "?good = \<lparr>up_title = in_title (body ?g9), up_author = in_author (body ?g9),
                up_likes = in_likes (body ?g9), up_url = in_url (body ?g9)\<rparr>"
    by (simp add: bare_def no_body_def)
  have ug1: "?good = \<lparr>up_title = in_title (body ?g1), up_author = in_author (body ?g1),
                up_likes = in_likes (body ?g1), up_url = in_url (body ?g1)\<rparr>"
    by (simp add: bare_def no_body_def)
  have ub9: "?bad = \<lparr>up_title = in_title (body ?b9), up_author = in_author (body ?b9),
                up_likes = in_likes (body ?b9), up_url = in_url (body ?b9)\<rparr>"
    by (simp add: bare_def no_body_def)
  have ub1: "?bad = \<lparr>up_title = in_title (body ?b1), up_author = in_author (body ?b1),
                up_likes = in_likes (body ?b1), up_url = in_url (body ?b1)\<rparr>"
    by (simp add: bare_def no_body_def)
  have m9: "Blog_docs seed (ObjectId ''64b000000000000000000009'') = None" by code_simp
  have m1: "Blog_docs seed id_blog1 = Some blog1" by code_simp
  have a: "applyUpdate ?good blog1 = blog1\<lparr>title := ''update''\<rparr>"
    by (simp add: applyUpdate_def)
  have r1: "blogsRouter_put ?b1 seed = seed\<lparr>sent := Some (400, ErrorMessage ''Validation failed'')\<rparr>"
    using update_answers_400_404_or_200 [OF h1 b1 ub1] by (simp add: bare_def no_body_def)
  have r2: "blogsRouter_put ?b9 seed = seed\<lparr>sent := Some (400, ErrorMessage ''Validation failed'')\<rparr>"
    using update_answers_400_404_or_200 [OF h1 b9 ub9] by (simp add: bare_def no_body_def)
  have r3: "blogsRouter_put ?g9 seed = seed\<lparr>sent := Some (404, Empty)\<rparr>"
    using update_answers_400_404_or_200 [OF h1 g9 ug9] m9 by (simp add: bare_def no_body_def)
  have r4: "blogsRouter_put ?g1 seed
     = seed\<lparr>Blog_docs := (Blog_docs seed)(id_blog1 \<mapsto> blog1\<lparr>title := ''update''\<rparr>),
            sent := Some (200, BlogDocument (blog1\<lparr>title := ''update''\<rparr>))\<rparr>"
    using update_answers_400_404_or_200 [OF h1 g1 ug1] m1 a by (simp add: bare_def no_body_def)
  from h1 c9 m9 c1 m1 r1 r2 r3 r4 show ?thesis by blast
qed

end
